theory Spec2Isabelle
  imports Main
begin

section \<open>Strings\<close>

text \<open>
  A JavaScript string is modelled as a \<^typ>\<open>string\<close>. The model covers the ASCII range:
  \<open>trim\<close> removes the ASCII white space characters (TAB, LF, VT, FF, CR, SPACE) from both
  ends, and \<open>toLowerCase\<close> maps \<open>A\<close>..\<open>Z\<close> to \<open>a\<close>..\<open>z\<close> and leaves every other
  character alone. The Unicode white space and case mappings of the JavaScript
  runtime outside ASCII are not modelled.
\<close>

definition is_space :: "char \<Rightarrow> bool" where
  "is_space c = (let n = (of_char c :: nat) in n = 32 \<or> (9 \<le> n \<and> n \<le> 13))"

definition trim :: "string \<Rightarrow> string" where
  "trim s = rev (dropWhile is_space (rev (dropWhile is_space s)))"

definition lower_char :: "char \<Rightarrow> char" where
  "lower_char c = (let n = (of_char c :: nat) in if 65 \<le> n \<and> n \<le> 90 then char_of (n + 32) else c)"

definition toLowerCase :: "string \<Rightarrow> string" where
  "toLowerCase s = map lower_char s"

text \<open>\<open>haystack.includes(needle)\<close> on strings.\<close>

fun includes_str :: "string \<Rightarrow> string \<Rightarrow> bool" where
  "includes_str [] needle = (needle = [])"
| "includes_str (c # cs) needle =
     (take (length needle) (c # cs) = needle \<or> includes_str cs needle)"

text \<open>\<open>a || b\<close> on strings: the first operand unless it is empty.\<close>

definition or_else :: "string \<Rightarrow> string \<Rightarrow> string" where
  "or_else a b = (if a \<noteq> [] then a else b)"


section \<open>Sender allow-list matcher (extensions/feishu/src/channel.ts, lines 262-266 and 365-377)\<close>

text \<open>
  \<^verbatim>\<open>
  function normalizeUserId(raw?: string | null): string {
    const trimmed = raw?.trim() ?? "";
    if (!trimmed) return "";
    return trimmed.toLowerCase();
  }
  \<close>
\<close>

definition normalizeUserId :: "string option \<Rightarrow> string" where
  "normalizeUserId raw =
     (let trimmed = (case raw of None \<Rightarrow> [] | Some r \<Rightarrow> trim r)
      in if trimmed = [] then [] else toLowerCase trimmed)"

text \<open>
  The prefixes of the regular expression \<^verbatim>\<open>/^(feishu|lark|user|open_id):/i\<close>, in the
  order of its alternatives. \<open>strip_prefixes\<close> is \<^verbatim>\<open>s.replace(/^(p1|p2|...):/i, "")\<close>:
  the first alternative that matches at the start of the string, followed by a colon
  and compared without regard to (ASCII) case, is removed; a string with no such
  prefix is returned unchanged.
\<close>

definition allow_prefixes :: "string list" where
  "allow_prefixes = [''feishu'', ''lark'', ''user'', ''open_id'']"

fun strip_prefixes :: "string list \<Rightarrow> string \<Rightarrow> string" where
  "strip_prefixes [] s = s"
| "strip_prefixes (p # ps) s =
     (if toLowerCase (take (length p + 1) s) = p @ '':''
      then drop (length p + 1) s
      else strip_prefixes ps s)"

text \<open>
  \<^verbatim>\<open>
  function isSenderAllowed(senderId: string, allowFrom: string[]) {
    if (allowFrom.includes("*")) return true;
    const normalizedSenderId = normalizeUserId(senderId);
    return allowFrom.some((entry) => {
      const normalized = String(entry).trim().toLowerCase();
      if (!normalized) return false;
      if (normalized === normalizedSenderId) return true;
      if (normalized.replace(/^(feishu|lark|user|open_id):/i, "") === normalizedSenderId) {
        return true;
      }
      return false;
    });
  }
  \<close>
  Allow-list entries are \<open>string | number\<close> in the configuration; every caller maps
  them through \<open>String\<close> first, so the model holds them as the strings \<open>String\<close> returns.
\<close>

definition entry_matches :: "string \<Rightarrow> string \<Rightarrow> bool" where
  "entry_matches normalizedSenderId entry =
     (let normalized = toLowerCase (trim entry)
      in if normalized = [] then False
         else if normalized = normalizedSenderId then True
         else if strip_prefixes allow_prefixes normalized = normalizedSenderId then True
         else False)"

definition isSenderAllowed :: "string \<Rightarrow> string list \<Rightarrow> bool" where
  "isSenderAllowed senderId allowFrom =
     (if ''*'' \<in> set allowFrom then True
      else let normalizedSenderId = normalizeUserId (Some senderId)
           in list_ex (entry_matches normalizedSenderId) allowFrom)"

section \<open>Configuration and event data (the zod schemas; channel.ts, lines 224-250)\<close>

text \<open>
  The zod schemas of the account configuration: every field is optional, so every field is an
  \<^typ>\<open>'a option\<close> (\<open>None\<close> for \<open>undefined\<close>). The two policy enums are datatypes. Only the
  fields the modelled functions read are kept. \<open>groups\<close> is a record keyed by group id,
  held as an association list read with \<^const>\<open>map_of\<close>; group ids are assumed not to be
  names of \<open>Object.prototype\<close> properties.
\<close>

datatype GroupPolicy = GroupAllowlist | GroupOpen | GroupDisabled

datatype DmPolicy = DmPairing | DmAllowlist | DmOpen | DmDisabled

record FeishuDmConfig =
  dm_enabled :: "bool option"
  dm_policy :: "DmPolicy option"
  dm_allowFrom :: "string list option"

record FeishuGroupEntry =
  entry_enabled :: "bool option"
  entry_allow :: "bool option"
  entry_requireMention :: "bool option"
  entry_users :: "string list option"
  entry_systemPrompt :: "string option"

record FeishuAccountConfig =
  cfg_botUserId :: "string option"
  cfg_botOpenId :: "string option"
  cfg_botName :: "string option"
  cfg_allowBots :: "bool option"
  cfg_requireMention :: "bool option"
  cfg_groupPolicy :: "GroupPolicy option"
  cfg_groups :: "(string \<times> FeishuGroupEntry) list option"
  cfg_dm :: "FeishuDmConfig option"

record ResolvedFeishuAccount =
  accountId :: string
  config :: FeishuAccountConfig

text \<open>
  The global configuration \<open>OpenClawConfig\<close> is declared outside this plugin. The pipeline
  reads \<open>config.channels?.defaults?.groupPolicy\<close> and \<open>config.commands?.useAccessGroups\<close>
  and hands the whole value to the core's predicates.
\<close>

record OpenClawConfig =
  defaults_groupPolicy :: "GroupPolicy option"
  commands_useAccessGroups :: "bool option"

text \<open>
  The inbound event. \<open>content\<close> and the entries of \<open>mentions\<close> are \<open>unknown\<close> in the
  source, which probes them with \<open>typeof\<close>: the datatypes keep the cases the probes
  tell apart.
\<close>

datatype MessageContent =
    ContentString string
  | ContentObject "string option"
  | ContentOther

record MentionIdRecord =
  mid_open_id :: "string option"
  mid_user_id :: "string option"

datatype MentionEntry =
    MentionNotObject
  | MentionObject "string option" "MentionIdRecord option"

record FeishuEventSenderId =
  open_id :: "string option"
  user_id :: "string option"
  union_id :: "string option"

record FeishuEventSender =
  sender_type :: "string option"
  sender_id :: "FeishuEventSenderId option"

record FeishuEventMessage =
  message_id :: "string option"
  chat_id :: "string option"
  chat_type :: "string option"
  msg_content :: MessageContent
  mentions :: "MentionEntry list option"
  root_id :: "string option"
  parent_id :: "string option"

record FeishuMessageEvent =
  ev_message :: "FeishuEventMessage option"
  ev_sender :: "FeishuEventSender option"

section \<open>Effects, errors and external collaborators\<close>

text \<open>
  A thrown \<open>Error\<close> is a value; \<open>String(err)\<close> is \<open>error_string\<close>.
\<close>

datatype error = Error string

fun error_string :: "error \<Rightarrow> string" where
  "error_string (Error m) = ''Error: '' @ m"

datatype ReceiveIdType = Chat_id | Open_id | User_id

record AgentRoute =
  route_agentId :: string
  route_sessionKey :: string
  route_accountId :: string

text \<open>
  The canonical inbound context handed to the dispatcher (the argument of
  \<open>finalizeInboundContext\<close>). The envelope \<open>Body\<close> and the time stamps come from external
  formatters and the session store and are left out.
\<close>

record InboundContext =
  RawBody :: string
  CommandBody :: string
  From :: string
  To :: string
  SessionKey :: string
  AccountId :: string
  ChatType :: string
  ConversationLabel :: string
  SenderId :: string
  WasMentioned :: "bool option"
  CommandAuthorized :: "bool option"
  MessageSid :: "string option"
  ReplyToId :: "string option"
  GroupSpace :: "string option"
  GroupSystemPrompt :: "string option"

text \<open>
  What a run does to the outside world, in order: lines written through \<open>runtime.log\<close>,
  calls to the pairing store, the send-message call of the platform client, the status
  sink, the session store and the reply dispatcher.
\<close>

datatype effect =
    Log string
  | ReadAllowFromStore string
  | UpsertPairingRequest string string
  | ImMessageCreate ReceiveIdType string string
  | StatusLastOutboundAt
  | RecordSessionMeta string
  | DispatchReply InboundContext




record FeishuRuntimeEnv =
  has_log :: bool
  has_error :: bool

text \<open>
  The functions of the core runtime the pipeline calls (\<open>core.logging\<close>,
  \<open>core.channel.commands\<close>, \<open>core.channel.text\<close>, \<open>core.channel.pairing\<close>,
  \<open>core.channel.routing\<close>). They live outside this plugin and are parameters of the
  model. \<open>readAllowFromStore\<close> returns \<open>None\<close> when its promise is rejected;
  \<open>upsertPairingRequest\<close> returns the pair \<open>(code, created)\<close>.
\<close>

record FeishuCoreRuntime =
  shouldLogVerbose :: bool
  shouldComputeCommandAuthorized :: "string \<Rightarrow> OpenClawConfig \<Rightarrow> bool"
  shouldHandleTextCommands :: "OpenClawConfig \<Rightarrow> bool"
  hasControlCommand :: "string \<Rightarrow> OpenClawConfig \<Rightarrow> bool"
  isControlCommandMessage :: "string \<Rightarrow> OpenClawConfig \<Rightarrow> bool"
  readAllowFromStore :: "string \<Rightarrow> string list option"
  upsertPairingRequest :: "string \<Rightarrow> string \<Rightarrow> string \<times> bool"
  buildPairingReply :: "string \<Rightarrow> string \<Rightarrow> string \<Rightarrow> string"
  resolveAgentRoute :: "string \<Rightarrow> bool \<Rightarrow> string \<Rightarrow> AgentRoute"

text \<open>
  The JavaScript platform and the Feishu SDK client: \<open>json_parse_text s\<close> is the \<open>text\<close>
  property of \<open>JSON.parse(s)\<close> when the parse succeeds and the property is a string;
  \<open>im_message_create\<close> is \<open>client.im.message.create\<close>, \<open>None\<close> when it resolves and the
  error when it rejects.
\<close>

record Platform =
  json_parse_text :: "string \<Rightarrow> string option"
  im_message_create :: "ReceiveIdType \<Rightarrow> string \<Rightarrow> string \<Rightarrow> error option"

text \<open>
  \<^verbatim>\<open>
  function logVerbose(core, runtime, message) {
    if (core.logging.shouldLogVerbose()) {
      runtime.log?.(`[feishu] ${message}`);
    }
  }
  \<close>
\<close>

definition logVerbose :: "FeishuCoreRuntime \<Rightarrow> FeishuRuntimeEnv \<Rightarrow> string \<Rightarrow> effect list" where
  "logVerbose core runtime message =
     (if shouldLogVerbose core then (if has_log runtime then [Log (''[feishu] '' @ message)] else [])
      else [])"

section \<open>Sending a text (extensions/feishu/src/api.ts)\<close>

record FeishuSendTarget =
  receiveIdType :: ReceiveIdType
  receiveId :: string

definition startsWith :: "string \<Rightarrow> string \<Rightarrow> bool" where
  "startsWith s p = (take (length p) s = p)"

definition resolveReceiveTarget :: "string \<Rightarrow> FeishuSendTarget option" where
  "resolveReceiveTarget raw =
     (let trimmed = trim raw in
      if trimmed = [] then None
      else let lower = toLowerCase trimmed in
        if startsWith lower ''chat:'' then
          Some \<lparr>receiveIdType = Chat_id, receiveId = trim (drop (length ''chat:'') trimmed)\<rparr>
        else if startsWith lower ''open_id:'' then
          Some \<lparr>receiveIdType = Open_id, receiveId = trim (drop (length ''open_id:'') trimmed)\<rparr>
        else if startsWith lower ''open:'' then
          Some \<lparr>receiveIdType = Open_id, receiveId = trim (drop (length ''open:'') trimmed)\<rparr>
        else if startsWith lower ''user:'' then
          Some \<lparr>receiveIdType = User_id, receiveId = trim (drop (length ''user:'') trimmed)\<rparr>
        else Some \<lparr>receiveIdType = Chat_id, receiveId = trimmed\<rparr>)"

text \<open>
  \<open>sendFeishuText\<close> throws on an empty target or an empty receive id before it calls the
  client; otherwise it calls \<open>client.im.message.create\<close> once (with or without the tenant
  key option) and throws what that call rejects with. The result is the thrown error, if
  any, with the effects.
\<close>

definition sendFeishuText ::
  "Platform \<Rightarrow> ResolvedFeishuAccount \<Rightarrow> string \<Rightarrow> string \<Rightarrow> error option \<times> effect list" where
  "sendFeishuText platform account to txt =
     (case resolveReceiveTarget to of
        None \<Rightarrow> (Some (Error ''Feishu target is empty''), [])
      | Some target \<Rightarrow>
          if receiveId target = [] then (Some (Error ''Feishu target missing receive_id''), [])
          else (im_message_create platform (receiveIdType target) (receiveId target) txt,
                [ImMessageCreate (receiveIdType target) (receiveId target) txt]))"

section \<open>Mention extractor (channel.ts, lines 298-333)\<close>

record MentionInfo =
  hasAnyMention :: bool
  wasMentioned :: bool
  canDetectMention :: bool

definition opt_trim :: "string option \<Rightarrow> string" where
  "opt_trim s = (case s of None \<Rightarrow> [] | Some v \<Rightarrow> trim v)"

text \<open>
  \<open>[botOpenId?.trim(), botUserId?.trim(), botName?.trim()].filter(Boolean)\<close>: the
  non-empty trimmed identifiers.
\<close>

definition mention_targets :: "string option \<Rightarrow> string option \<Rightarrow> string option \<Rightarrow> string list" where
  "mention_targets botOpenId botUserId botName =
     filter (\<lambda>s. s \<noteq> []) [opt_trim botOpenId, opt_trim botUserId, opt_trim botName]"

text \<open>The body of the loop over the mention list: does this entry name the bot?\<close>

fun mention_hits :: "string list \<Rightarrow> MentionEntry \<Rightarrow> bool" where
  "mention_hits targets MentionNotObject = False"
| "mention_hits targets (MentionObject name idRecord) =
     (let name' = opt_trim name;
          openId = (case idRecord of None \<Rightarrow> [] | Some r \<Rightarrow> opt_trim (mid_open_id r));
          userId = (case idRecord of None \<Rightarrow> [] | Some r \<Rightarrow> opt_trim (mid_user_id r))
      in name' \<in> set targets \<or> openId \<in> set targets \<or> userId \<in> set targets)"

text \<open>The marker \<^verbatim>\<open>user_id=\"ID\"\<close> (backslashes included) of the inline mention format.\<close>

definition mention_marker :: "string \<Rightarrow> string" where
  "mention_marker botUserId =
     ''user_id='' @ [CHR 0x5C, CHR 0x22] @ botUserId @ [CHR 0x5C, CHR 0x22]"

definition extractMentionInfo ::
  "MentionEntry list option \<Rightarrow> string \<Rightarrow> string option \<Rightarrow> string option \<Rightarrow> string option \<Rightarrow> MentionInfo" where
  "extractMentionInfo mentionList rawContent botOpenId botUserId botName =
     (let list = (case mentionList of None \<Rightarrow> [] | Some l \<Rightarrow> l);
          hasAny = (length list > 0 \<or> includes_str rawContent ''<at '');
          targets = mention_targets botOpenId botUserId botName;
          was = list_ex (mention_hits targets) list;
          was' = (case botUserId of
                    None \<Rightarrow> was
                  | Some b \<Rightarrow>
                      if \<not> was \<and> b \<noteq> [] then
                        (if includes_str rawContent (mention_marker b) then True else was)
                      else was);
          canDetect = (length list > 0 \<or> includes_str rawContent ''<at '')
      in \<lparr>hasAnyMention = hasAny, wasMentioned = was', canDetectMention = canDetect\<rparr>)"

section \<open>Group configuration lookup (channel.ts, lines 335-363)\<close>

record GroupConfigResolved =
  gc_entry :: "FeishuGroupEntry option"
  allowlistConfigured :: bool
  gc_fallback :: "FeishuGroupEntry option"

text \<open>\<open>xs.find(Boolean)\<close> over looked-up entries: the first one that is defined.\<close>

fun first_defined :: "'a option list \<Rightarrow> 'a option" where
  "first_defined [] = None"
| "first_defined (Some x # xs) = Some x"
| "first_defined (None # xs) = first_defined xs"

definition resolveGroupConfig ::
  "string \<Rightarrow> string option \<Rightarrow> (string \<times> FeishuGroupEntry) list option \<Rightarrow> GroupConfigResolved" where
  "resolveGroupConfig groupId groupName groups =
     (let entries = (case groups of None \<Rightarrow> [] | Some g \<Rightarrow> g);
          keys = map fst entries
      in if length keys = 0 then
           \<lparr>gc_entry = None, allowlistConfigured = False, gc_fallback = None\<rparr>
         else
           let normalizedName = map_option (\<lambda>n. toLowerCase (trim n)) groupName;
               candidates = filter (\<lambda>c. c \<noteq> [])
                 [groupId,
                  (case groupName of None \<Rightarrow> [] | Some n \<Rightarrow> n),
                  (case normalizedName of None \<Rightarrow> [] | Some n \<Rightarrow> n)];
               entry = first_defined (map (map_of entries) candidates);
               entry' = (case normalizedName of
                           None \<Rightarrow> entry
                         | Some n \<Rightarrow> if entry = None \<and> n \<noteq> [] then map_of entries n else entry);
               fallback = map_of entries ''*''
           in \<lparr>gc_entry = (case entry' of None \<Rightarrow> fallback | Some e \<Rightarrow> Some e),
               allowlistConfigured = True, gc_fallback = fallback\<rparr>)"

section \<open>External gates modelled from the specification\<close>

text \<open>
  Modelled from the spec: \<open>core.channel.commands.resolveCommandAuthorizedFromAuthorizers\<close>
  is code of the core, outside this plugin's sources. Section 4.5 of the
  specification: the final boolean is true iff \<open>useAccessGroups\<close> is false or the sender
  matched the applicable allow-list. The pipeline passes one authorizer whose \<open>allowed\<close>
  flag is the result of the allow-list match.
\<close>

record CommandAuthorizer =
  configured :: bool
  allowed :: bool

definition resolveCommandAuthorizedFromAuthorizers :: "bool \<Rightarrow> CommandAuthorizer list \<Rightarrow> bool" where
  "resolveCommandAuthorizedFromAuthorizers useAccessGroups authorizers =
     (\<not> useAccessGroups \<or> list_ex allowed authorizers)"

text \<open>
  Modelled from the spec: \<open>resolveMentionGatingWithBypass\<close> is imported from the plugin
  SDK, outside this plugin's sources. Section 4.6 of the specification gives
  its decision table, first matching row first:
  \<^verbatim>\<open>
  requireMention  wasMentioned  command bypass  canDetectMention  result
  false           -             -               -                 continue, effective = wasMentioned
  true            true          -               -                 continue
  true            false         true            -                 continue, effective = true
  true            false         false           false             continue (fail open)
  true            false         false           true              skip
  \<close>
  where the command bypass is \<open>hasControlCommand & commandAuthorized & allowTextCommands\<close>.
\<close>

record MentionGateParams =
  mg_isGroup :: bool
  mg_requireMention :: bool
  mg_canDetectMention :: bool
  mg_wasMentioned :: bool
  mg_implicitMention :: bool
  mg_hasAnyMention :: bool
  mg_allowTextCommands :: bool
  mg_hasControlCommand :: bool
  mg_commandAuthorized :: bool

record MentionGate =
  shouldSkip :: bool
  effectiveWasMentioned :: bool

definition resolveMentionGatingWithBypass :: "MentionGateParams \<Rightarrow> MentionGate" where
  "resolveMentionGatingWithBypass p =
     (if \<not> mg_requireMention p then
        \<lparr>shouldSkip = False, effectiveWasMentioned = mg_wasMentioned p\<rparr>
      else if mg_wasMentioned p then
        \<lparr>shouldSkip = False, effectiveWasMentioned = True\<rparr>
      else if mg_hasControlCommand p \<and> mg_commandAuthorized p \<and> mg_allowTextCommands p then
        \<lparr>shouldSkip = False, effectiveWasMentioned = True\<rparr>
      else if \<not> mg_canDetectMention p then
        \<lparr>shouldSkip = False, effectiveWasMentioned = False\<rparr>
      else
        \<lparr>shouldSkip = True, effectiveWasMentioned = False\<rparr>)"

section \<open>The inbound pipeline (channel.ts, lines 379-657, processMessageWithPipeline)\<close>

text \<open>
  \<open>processMessageWithPipeline\<close> is one function that returns at the first gate that
  rejects. The model follows it segment by segment; each segment is a definition that
  returns \<open>Some (reason, effects)\<close> where the source logs and returns, and \<open>None\<close> where
  it goes on. The reason names the \<open>return\<close> statement taken.
\<close>

datatype drop_reason =
    NoMessage
  | NoChatId
  | BotAuthored
  | EmptyBody
  | GroupPolicyDisabled
  | NoGroupAllowlist
  | GroupNotAllowlisted
  | GroupChatDisabled
  | GroupSenderNotAllowed
  | MentionRequired
  | DmBlocked
  | DmSenderNotAllowed
  | ControlCommandNotAuthorized

datatype outcome = Dropped drop_reason | Dispatched InboundContext

definition resolveSenderId :: "FeishuEventSender option \<Rightarrow> string" where
  "resolveSenderId sender =
     (case (case sender of None \<Rightarrow> None | Some s \<Rightarrow> sender_id s) of
        None \<Rightarrow> []
      | Some senderId \<Rightarrow>
          or_else (opt_trim (open_id senderId))
            (or_else (opt_trim (user_id senderId))
              (or_else (opt_trim (union_id senderId)) [])))"

definition extractMessageText :: "Platform \<Rightarrow> MessageContent \<Rightarrow> string" where
  "extractMessageText platform content =
     (case content of
        ContentString c \<Rightarrow>
          (let trimmed = trim c in
           if trimmed = [] then []
           else if startsWith trimmed ''{'' \<or> startsWith trimmed ''['' then
             (let txt = (case json_parse_text platform trimmed of None \<Rightarrow> [] | Some t \<Rightarrow> trim t)
              in if txt \<noteq> [] then txt else trimmed)
           else trimmed)
      | ContentObject t \<Rightarrow> opt_trim t
      | ContentOther \<Rightarrow> [])"

text \<open>Lines 388-415: the message, the chat id, the bot filter and the body.\<close>

record PipelineLocals =
  l_message :: FeishuEventMessage
  l_chatId :: string
  l_isGroup :: bool
  l_senderId :: string
  l_rawContent :: string
  l_rawBody :: string

definition pipeline_intake ::
  "FeishuCoreRuntime \<Rightarrow> FeishuRuntimeEnv \<Rightarrow> Platform \<Rightarrow> ResolvedFeishuAccount \<Rightarrow>
   FeishuMessageEvent \<Rightarrow> (drop_reason \<times> effect list) + PipelineLocals" where
  "pipeline_intake core runtime platform account event =
     (case ev_message event of
        None \<Rightarrow> Inl (NoMessage, [])
      | Some message \<Rightarrow>
          let chatId = opt_trim (chat_id message) in
          if chatId = [] then Inl (NoChatId, [])
          else
            let chatType = (case chat_type message of None \<Rightarrow> [] | Some t \<Rightarrow> trim (toLowerCase t));
                isGroup = (chatType \<noteq> ''p2p'');
                sender = ev_sender event;
                senderId = resolveSenderId sender;
                senderType = (case sender of
                                None \<Rightarrow> None
                              | Some s \<Rightarrow> map_option (\<lambda>t. trim (toLowerCase t)) (sender_type s));
                allowBots = (cfg_allowBots (config account) = Some True)
            in
              if \<not> allowBots \<and> senderType = Some ''bot'' then
                Inl (BotAuthored,
                     logVerbose core runtime
                       (''skip bot-authored message ('' @ or_else senderId ''unknown'' @ '')''))
              else if \<not> allowBots \<and> senderId \<noteq> [] \<and>
                      Some senderId = map_option trim (cfg_botOpenId (config account)) then
                Inl (BotAuthored, logVerbose core runtime ''skip bot-authored message (bot open_id)'')
              else
                let rawContent = (case msg_content message of ContentString c \<Rightarrow> c | _ \<Rightarrow> []);
                    messageText = extractMessageText platform (msg_content message);
                    rawBody = trim messageText
                in if rawBody = [] then Inl (EmptyBody, [])
                   else Inr \<lparr>l_message = message, l_chatId = chatId, l_isGroup = isGroup,
                             l_senderId = senderId, l_rawContent = rawContent,
                             l_rawBody = rawBody\<rparr>)"

text \<open>
  Lines 417-418, 463 and 484: the policies in force.
  \<^verbatim>\<open>
  const groupPolicy = account.config.groupPolicy ?? defaultGroupPolicy ?? "allowlist";
  const dmPolicy = account.config.dm?.policy ?? "pairing";
  const requireMention = groupEntry?.requireMention ?? account.config.requireMention ?? true;
  \<close>
\<close>

definition effective_groupPolicy :: "ResolvedFeishuAccount \<Rightarrow> OpenClawConfig \<Rightarrow> GroupPolicy" where
  "effective_groupPolicy account cfg =
     (case cfg_groupPolicy (config account) of
        Some p \<Rightarrow> p
      | None \<Rightarrow> (case defaults_groupPolicy cfg of Some p \<Rightarrow> p | None \<Rightarrow> GroupAllowlist))"

definition effective_dmPolicy :: "ResolvedFeishuAccount \<Rightarrow> DmPolicy" where
  "effective_dmPolicy account =
     (case cfg_dm (config account) of
        None \<Rightarrow> DmPairing
      | Some d \<Rightarrow> (case dm_policy d of Some p \<Rightarrow> p | None \<Rightarrow> DmPairing))"

definition effective_requireMention :: "FeishuGroupEntry option \<Rightarrow> ResolvedFeishuAccount \<Rightarrow> bool" where
  "effective_requireMention groupEntry account =
     (case (case groupEntry of None \<Rightarrow> None | Some e \<Rightarrow> entry_requireMention e) of
        Some r \<Rightarrow> r
      | None \<Rightarrow> (case cfg_requireMention (config account) of Some r \<Rightarrow> r | None \<Rightarrow> True))"

text \<open>\<open>groupEntry?.users ?? []\<close>\<close>

definition groupUsers_of :: "FeishuGroupEntry option \<Rightarrow> string list" where
  "groupUsers_of groupEntry =
     (case groupEntry of
        None \<Rightarrow> []
      | Some e \<Rightarrow> (case entry_users e of None \<Rightarrow> [] | Some u \<Rightarrow> u))"

text \<open>Lines 428-461: the group gate, entered when \<open>isGroup\<close>.\<close>

definition pipeline_groupGate ::
  "FeishuCoreRuntime \<Rightarrow> FeishuRuntimeEnv \<Rightarrow> ResolvedFeishuAccount \<Rightarrow> GroupPolicy \<Rightarrow>
   GroupConfigResolved \<Rightarrow> string \<Rightarrow> string \<Rightarrow> (drop_reason \<times> effect list) option" where
  "pipeline_groupGate core runtime account groupPolicy groupConfigResolved chatId senderId =
     (let groupEntry = gc_entry groupConfigResolved;
          groupUsers = groupUsers_of groupEntry
      in
      if groupPolicy = GroupDisabled then
        Some (GroupPolicyDisabled,
              logVerbose core runtime
                (''drop group message (groupPolicy=disabled, chat='' @ chatId @ '')''))
      else
        let groupAllowlistConfigured = allowlistConfigured groupConfigResolved;
            groupAllowed = (groupEntry \<noteq> None \<or>
              map_of (case cfg_groups (config account) of None \<Rightarrow> [] | Some g \<Rightarrow> g) ''*'' \<noteq> None)
        in
        if groupPolicy = GroupAllowlist \<and> \<not> groupAllowlistConfigured then
          Some (NoGroupAllowlist,
                logVerbose core runtime
                  (''drop group message (groupPolicy=allowlist, no allowlist, chat='' @ chatId @ '')''))
        else if groupPolicy = GroupAllowlist \<and> \<not> groupAllowed then
          Some (GroupNotAllowlisted,
                logVerbose core runtime
                  (''drop group message (not allowlisted, chat='' @ chatId @ '')''))
        else if (case groupEntry of
                   None \<Rightarrow> False
                 | Some e \<Rightarrow> entry_enabled e = Some False \<or> entry_allow e = Some False) then
          Some (GroupChatDisabled,
                logVerbose core runtime
                  (''drop group message (chat disabled, chat='' @ chatId @ '')''))
        else if length groupUsers > 0 \<and> \<not> isSenderAllowed senderId groupUsers then
          Some (GroupSenderNotAllowed,
                logVerbose core runtime
                  (''drop group message (sender not allowed, '' @ senderId @ '')''))
        else None)"

text \<open>\<open>(account.config.dm?.allowFrom ?? []).map((v) => String(v))\<close>\<close>

definition configAllowFrom_of :: "ResolvedFeishuAccount \<Rightarrow> string list" where
  "configAllowFrom_of account =
     (case cfg_dm (config account) of
        None \<Rightarrow> []
      | Some d \<Rightarrow> (case dm_allowFrom d of None \<Rightarrow> [] | Some a \<Rightarrow> a))"

text \<open>\<open>await core.channel.pairing.readAllowFromStore("feishu").catch(() => [])\<close>\<close>

definition storeAllowFrom_of :: "FeishuCoreRuntime \<Rightarrow> string list" where
  "storeAllowFrom_of core =
     (case readAllowFromStore core ''feishu'' of None \<Rightarrow> [] | Some l \<Rightarrow> l)"

text \<open>\<open>account.config.dm?.enabled === false\<close>\<close>

definition dm_enabled_is_false :: "ResolvedFeishuAccount \<Rightarrow> bool" where
  "dm_enabled_is_false account =
     (case cfg_dm (config account) of None \<Rightarrow> False | Some d \<Rightarrow> dm_enabled d = Some False)"

text \<open>
  Lines 463-481: the DM policy, the allow-lists and the command authorization. The
  pairing store is read only for a direct conversation whose policy is not \<open>open\<close> or
  whose body needs the authorization computed; a rejected read counts as the empty list.
\<close>

record CommandAuth =
  ca_dmPolicy :: DmPolicy
  ca_commandAllowFrom :: "string list"
  ca_senderAllowedForCommands :: bool
  ca_commandAuthorized :: "bool option"
  ca_effects :: "effect list"

definition pipeline_commandAuth ::
  "FeishuCoreRuntime \<Rightarrow> ResolvedFeishuAccount \<Rightarrow> OpenClawConfig \<Rightarrow> bool \<Rightarrow> string \<Rightarrow> string \<Rightarrow>
   string list \<Rightarrow> CommandAuth" where
  "pipeline_commandAuth core account cfg isGroup senderId rawBody groupUsers =
     (let dmPolicy = effective_dmPolicy account;
          configAllowFrom = configAllowFrom_of account;
          shouldComputeAuth = shouldComputeCommandAuthorized core rawBody cfg;
          readsStore = (\<not> isGroup \<and> (dmPolicy \<noteq> DmOpen \<or> shouldComputeAuth));
          storeAllowFrom = (if readsStore then storeAllowFrom_of core else []);
          effectiveAllowFrom = configAllowFrom @ storeAllowFrom;
          commandAllowFrom = (if isGroup then groupUsers else effectiveAllowFrom);
          useAccessGroups = (commands_useAccessGroups cfg \<noteq> Some False);
          senderAllowedForCommands = isSenderAllowed senderId commandAllowFrom;
          commandAuthorized =
            (if shouldComputeAuth
             then Some (resolveCommandAuthorizedFromAuthorizers useAccessGroups
                          [\<lparr>configured = length commandAllowFrom > 0,
                            allowed = senderAllowedForCommands\<rparr>])
             else None)
      in \<lparr>ca_dmPolicy = dmPolicy, ca_commandAllowFrom = commandAllowFrom,
          ca_senderAllowedForCommands = senderAllowedForCommands,
          ca_commandAuthorized = commandAuthorized,
          ca_effects = (if readsStore then [ReadAllowFromStore ''feishu''] else [])\<rparr>)"

text \<open>Lines 483-512: the mention gate, entered when \<open>isGroup\<close>.\<close>

definition pipeline_mentionInfo ::
  "ResolvedFeishuAccount \<Rightarrow> FeishuEventMessage \<Rightarrow> string \<Rightarrow> MentionInfo" where
  "pipeline_mentionInfo account message rawContent =
     extractMentionInfo (mentions message) rawContent
       (cfg_botOpenId (config account)) (cfg_botUserId (config account))
       (cfg_botName (config account))"

definition pipeline_mentionParams ::
  "FeishuCoreRuntime \<Rightarrow> ResolvedFeishuAccount \<Rightarrow> OpenClawConfig \<Rightarrow> FeishuEventMessage \<Rightarrow>
   FeishuGroupEntry option \<Rightarrow> string \<Rightarrow> string \<Rightarrow> bool option \<Rightarrow> MentionGateParams" where
  "pipeline_mentionParams core account cfg message groupEntry rawContent rawBody commandAuthorized =
     (let requireMention = effective_requireMention groupEntry account;
          mentionInfo = pipeline_mentionInfo account message rawContent;
          allowTextCommands = shouldHandleTextCommands core cfg
      in \<lparr>mg_isGroup = True,
          mg_requireMention = requireMention,
          mg_canDetectMention = canDetectMention mentionInfo,
          mg_wasMentioned = wasMentioned mentionInfo,
          mg_implicitMention = False,
          mg_hasAnyMention = hasAnyMention mentionInfo,
          mg_allowTextCommands = allowTextCommands,
          mg_hasControlCommand = hasControlCommand core rawBody cfg,
          mg_commandAuthorized = (commandAuthorized = Some True)\<rparr>)"

definition pipeline_mentionGate ::
  "FeishuCoreRuntime \<Rightarrow> FeishuRuntimeEnv \<Rightarrow> ResolvedFeishuAccount \<Rightarrow> OpenClawConfig \<Rightarrow>
   FeishuEventMessage \<Rightarrow> FeishuGroupEntry option \<Rightarrow> string \<Rightarrow> string \<Rightarrow> string \<Rightarrow> bool option \<Rightarrow>
   bool \<times> (drop_reason \<times> effect list) option" where
  "pipeline_mentionGate core runtime account cfg message groupEntry chatId rawContent rawBody
     commandAuthorized =
     (let mentionGate = resolveMentionGatingWithBypass
            (pipeline_mentionParams core account cfg message groupEntry rawContent rawBody
               commandAuthorized)
      in (effectiveWasMentioned mentionGate,
          if shouldSkip mentionGate then
            Some (MentionRequired,
                  logVerbose core runtime
                    (''drop group message (mention required, chat='' @ chatId @ '')''))
          else None))"

text \<open>Lines 514-555: the DM gate, entered when the conversation is not a group.\<close>

fun dmPolicy_name :: "DmPolicy \<Rightarrow> string" where
  "dmPolicy_name DmPairing = ''pairing''"
| "dmPolicy_name DmAllowlist = ''allowlist''"
| "dmPolicy_name DmOpen = ''open''"
| "dmPolicy_name DmDisabled = ''disabled''"

definition pipeline_dmGate ::
  "FeishuCoreRuntime \<Rightarrow> FeishuRuntimeEnv \<Rightarrow> Platform \<Rightarrow> bool \<Rightarrow> ResolvedFeishuAccount \<Rightarrow>
   DmPolicy \<Rightarrow> string \<Rightarrow> bool \<Rightarrow> (drop_reason \<times> effect list) option" where
  "pipeline_dmGate core runtime platform hasStatusSink account dmPolicy senderId
     senderAllowedForCommands =
     (if dmPolicy = DmDisabled \<or> dm_enabled_is_false account then
        Some (DmBlocked,
              logVerbose core runtime
                (''Blocked Feishu DM from '' @ senderId @ '' (dmPolicy=disabled)''))
      else if dmPolicy \<noteq> DmOpen then
        (let isAllowed = senderAllowedForCommands in
         if \<not> isAllowed then
           (if dmPolicy = DmPairing then
              (case upsertPairingRequest core ''feishu'' senderId of
                 (code, created) \<Rightarrow>
                   if created then
                     (case sendFeishuText platform account (''open_id:'' @ senderId)
                             (buildPairingReply core ''feishu''
                                (''Your Feishu user id: '' @ senderId) code) of
                        (None, sent) \<Rightarrow>
                          Some (DmSenderNotAllowed,
                                [UpsertPairingRequest ''feishu'' senderId]
                                @ logVerbose core runtime (''feishu pairing request sender='' @ senderId)
                                @ sent
                                @ (if hasStatusSink then [StatusLastOutboundAt] else []))
                      | (Some err, sent) \<Rightarrow>
                          Some (DmSenderNotAllowed,
                                [UpsertPairingRequest ''feishu'' senderId]
                                @ logVerbose core runtime (''feishu pairing request sender='' @ senderId)
                                @ sent
                                @ logVerbose core runtime
                                    (''pairing reply failed for '' @ senderId @ '': '' @ error_string err)))
                   else Some (DmSenderNotAllowed, [UpsertPairingRequest ''feishu'' senderId]))
            else
              Some (DmSenderNotAllowed,
                    logVerbose core runtime
                      (''Blocked unauthorized Feishu sender '' @ senderId
                       @ '' (dmPolicy='' @ dmPolicy_name dmPolicy @ '')'')))
         else None)
      else None)"

text \<open>Lines 557-564: an unauthorized control command in a group is dropped.\<close>

definition pipeline_controlCommandGate ::
  "FeishuCoreRuntime \<Rightarrow> FeishuRuntimeEnv \<Rightarrow> OpenClawConfig \<Rightarrow> bool \<Rightarrow> string \<Rightarrow> string \<Rightarrow>
   bool option \<Rightarrow> (drop_reason \<times> effect list) option" where
  "pipeline_controlCommandGate core runtime cfg isGroup senderId rawBody commandAuthorized =
     (if isGroup \<and> isControlCommandMessage core rawBody cfg \<and> commandAuthorized \<noteq> Some True then
        Some (ControlCommandNotAuthorized,
              logVerbose core runtime (''feishu: drop control command from '' @ senderId))
      else None)"

text \<open>Lines 566-627: the route and the inbound context.\<close>

definition pipeline_context ::
  "FeishuCoreRuntime \<Rightarrow> ResolvedFeishuAccount \<Rightarrow> PipelineLocals \<Rightarrow> FeishuGroupEntry option \<Rightarrow>
   bool option \<Rightarrow> bool option \<Rightarrow> InboundContext" where
  "pipeline_context core account l groupEntry effectiveWasMentioned' commandAuthorized =
     (let isGroup = l_isGroup l;
          chatId = l_chatId l;
          senderId = l_senderId l;
          message = l_message l;
          route = resolveAgentRoute core (accountId account) isGroup chatId;
          fromLabel = (if isGroup then ''chat:'' @ chatId else or_else senderId ''user:unknown'');
          groupSystemPrompt =
            (case (case groupEntry of None \<Rightarrow> None | Some e \<Rightarrow> entry_systemPrompt e) of
               None \<Rightarrow> None
             | Some p \<Rightarrow> if trim p \<noteq> [] then Some (trim p) else None)
      in \<lparr>RawBody = l_rawBody l,
          CommandBody = l_rawBody l,
          From = ''feishu:'' @ senderId,
          To = ''feishu:'' @ chatId,
          SessionKey = route_sessionKey route,
          AccountId = route_accountId route,
          ChatType = (if isGroup then ''channel'' else ''direct''),
          ConversationLabel = fromLabel,
          SenderId = senderId,
          WasMentioned = (if isGroup then effectiveWasMentioned' else None),
          CommandAuthorized = commandAuthorized,
          MessageSid = message_id message,
          ReplyToId = (case root_id message of Some r \<Rightarrow> Some r | None \<Rightarrow> parent_id message),
          GroupSpace = (if isGroup then Some chatId else None),
          GroupSystemPrompt = (if isGroup then groupSystemPrompt else None)\<rparr>)"

text \<open>
  The whole function: the segments in the order of the source. A run ends in
  \<open>Dropped\<close> at the first gate that returns, or in \<open>Dispatched\<close> once the context is
  handed to the reply dispatcher.
\<close>

definition processMessageWithPipeline ::
  "FeishuCoreRuntime \<Rightarrow> FeishuRuntimeEnv \<Rightarrow> Platform \<Rightarrow> bool \<Rightarrow> ResolvedFeishuAccount \<Rightarrow>
   OpenClawConfig \<Rightarrow> FeishuMessageEvent \<Rightarrow> outcome \<times> effect list" where
  "processMessageWithPipeline core runtime platform hasStatusSink account cfg event =
     (case pipeline_intake core runtime platform account event of
        Inl (reason, effs) \<Rightarrow> (Dropped reason, effs)
      | Inr l \<Rightarrow>
         (let groupPolicy = effective_groupPolicy account cfg;
              groupConfigResolved = resolveGroupConfig (l_chatId l) None (cfg_groups (config account));
              groupEntry = gc_entry groupConfigResolved;
              groupUsers = groupUsers_of groupEntry
          in
          (case (if l_isGroup l
                 then pipeline_groupGate core runtime account groupPolicy groupConfigResolved
                        (l_chatId l) (l_senderId l)
                 else None) of
             Some (reason, effs) \<Rightarrow> (Dropped reason, effs)
           | None \<Rightarrow>
              (let ca = pipeline_commandAuth core account cfg (l_isGroup l) (l_senderId l)
                          (l_rawBody l) groupUsers;
                   commandAuthorized = ca_commandAuthorized ca;
                   mention = (if l_isGroup l
                              then (case pipeline_mentionGate core runtime account cfg (l_message l)
                                           groupEntry (l_chatId l) (l_rawContent l) (l_rawBody l)
                                           commandAuthorized of
                                      (eff, stop) \<Rightarrow> (Some eff, stop))
                              else (None, None));
                   effectiveWasMentioned' = fst mention
               in
               (case snd mention of
                  Some (reason, effs) \<Rightarrow> (Dropped reason, ca_effects ca @ effs)
                | None \<Rightarrow>
                   (case (if \<not> l_isGroup l
                          then pipeline_dmGate core runtime platform hasStatusSink account
                                 (ca_dmPolicy ca) (l_senderId l) (ca_senderAllowedForCommands ca)
                          else None) of
                      Some (reason, effs) \<Rightarrow> (Dropped reason, ca_effects ca @ effs)
                    | None \<Rightarrow>
                       (case pipeline_controlCommandGate core runtime cfg (l_isGroup l)
                               (l_senderId l) (l_rawBody l) commandAuthorized of
                          Some (reason, effs) \<Rightarrow> (Dropped reason, ca_effects ca @ effs)
                        | None \<Rightarrow>
                           (let ctx = pipeline_context core account l groupEntry
                                        effectiveWasMentioned' commandAuthorized
                            in (Dispatched ctx,
                                ca_effects ca
                                @ [RecordSessionMeta (SessionKey ctx), DispatchReply ctx])))))))))"

section \<open>Outbound webhook forwarder (forwardWebchatFinal)\<close>














section \<open>Concrete configurations and events\<close>

text \<open>
  A core runtime, a platform, accounts and events on which the theorems below are
  instantiated. The core computes the command authorization for every body, treats a
  body that starts with a slash as a control command, has an empty pairing store and
  answers every pairing request with a fresh code.
\<close>

definition example_core :: "bool \<Rightarrow> FeishuCoreRuntime" where
  "example_core verbose =
     \<lparr>shouldLogVerbose = verbose,
      shouldComputeCommandAuthorized = (\<lambda>body cfg. True),
      shouldHandleTextCommands = (\<lambda>cfg. True),
      hasControlCommand = (\<lambda>body cfg. startsWith body ''/''),
      isControlCommandMessage = (\<lambda>body cfg. startsWith body ''/''),
      readAllowFromStore = (\<lambda>channel. Some []),
      upsertPairingRequest = (\<lambda>channel senderId. (''4F7K2Q'', True)),
      buildPairingReply = (\<lambda>channel idLine code. idLine @ '' / pairing code: '' @ code),
      resolveAgentRoute = (\<lambda>account isGroup chatId.
        \<lparr>route_agentId = ''main'', route_sessionKey = ''feishu:'' @ chatId,
         route_accountId = account\<rparr>)\<rparr>"

definition example_runtime :: FeishuRuntimeEnv where
  "example_runtime = \<lparr>has_log = True, has_error = True\<rparr>"

text \<open>A platform whose send-message call succeeds, and one whose call is rejected.\<close>

definition example_platform :: Platform where
  "example_platform =
     \<lparr>json_parse_text = (\<lambda>s. None), im_message_create = (\<lambda>idType receiver txt. None)\<rparr>"


definition example_global :: OpenClawConfig where
  "example_global = \<lparr>defaults_groupPolicy = None, commands_useAccessGroups = None\<rparr>"

definition unset_config :: FeishuAccountConfig where
  "unset_config =
     \<lparr>cfg_botUserId = None, cfg_botOpenId = None, cfg_botName = None, cfg_allowBots = None,
      cfg_requireMention = None, cfg_groupPolicy = None, cfg_groups = None, cfg_dm = None\<rparr>"

definition example_account :: "FeishuAccountConfig \<Rightarrow> ResolvedFeishuAccount" where
  "example_account c = \<lparr>accountId = ''default'', config = c\<rparr>"

definition example_event ::
  "string \<Rightarrow> string \<Rightarrow> string \<Rightarrow> string \<Rightarrow> MentionEntry list option \<Rightarrow> FeishuMessageEvent" where
  "example_event chatType chatId senderId body mentionList =
     \<lparr>ev_message = Some \<lparr>message_id = Some ''om_1'', chat_id = Some chatId,
                          chat_type = Some chatType, msg_content = ContentString body,
                          mentions = mentionList, root_id = None, parent_id = None\<rparr>,
      ev_sender = Some \<lparr>sender_type = Some ''user'',
                         sender_id = Some \<lparr>open_id = Some senderId, user_id = None,
                                           union_id = None\<rparr>\<rparr>\<rparr>"




section \<open>Properties of the string functions\<close>











section \<open>Sender allow-list matcher\<close>

text \<open>
  C6. An allow-list that contains the wildcard token \<open>*\<close> admits every sender
  identifier, the empty string included, and the empty allow-list admits no sender.
\<close>

theorem wildcard_allows_every_sender:
  "(''*'' \<in> set allowFrom \<longrightarrow> isSenderAllowed senderId allowFrom)
   \<and> \<not> isSenderAllowed senderId []"
  by (simp add: isSenderAllowed_def)

theorem wildcard_allows_every_sender_witness:
  "''*'' \<in> set [''ou_9'', ''*''] \<and> isSenderAllowed '''' [''ou_9'', ''*'']
   \<and> \<not> isSenderAllowed '''' []"
  using wildcard_allows_every_sender [of "[''ou_9'', ''*'']" "''''"] by simp




section \<open>Mention extractor\<close>

text \<open>
  C9. For every mention list, raw content and bot identifiers, \<open>extractMentionInfo\<close>
  returns \<open>hasAnyMention\<close> equal to \<open>canDetectMention\<close>: both are true exactly when the
  mention list is non-empty or the raw content contains the marker \<open><at \<close>.
\<close>

theorem hasAnyMention_is_canDetectMention:
  "hasAnyMention (extractMentionInfo mentionList rawContent botOpenId botUserId botName)
     = canDetectMention (extractMentionInfo mentionList rawContent botOpenId botUserId botName)
   \<and> canDetectMention (extractMentionInfo mentionList rawContent botOpenId botUserId botName)
     = ((case mentionList of None \<Rightarrow> False | Some l \<Rightarrow> l \<noteq> []) \<or> includes_str rawContent ''<at '')"
  by (auto simp: extractMentionInfo_def Let_def split: option.splits)

theorem hasAnyMention_is_canDetectMention_witness:
  "hasAnyMention (extractMentionInfo None ''hi <at user_id=1>'' None (Some ''u_bot'') None)
   \<and> canDetectMention (extractMentionInfo None ''hi <at user_id=1>'' None (Some ''u_bot'') None)
   \<and> includes_str ''hi <at user_id=1>'' ''<at ''"
proof -
  have "includes_str ''hi <at user_id=1>'' ''<at ''" by simp
  then show ?thesis
    using hasAnyMention_is_canDetectMention [of None "''hi <at user_id=1>''" None "Some ''u_bot''" None]
    by simp
qed

section \<open>Command authorization\<close>



section \<open>Policy defaults\<close>







section \<open>Mention gate\<close>




section \<open>Group gate\<close>

lemma resolveGroupConfig_no_entries:
  "groups = None \<or> groups = Some [] \<Longrightarrow>
   resolveGroupConfig groupId groupName groups
     = \<lparr>gc_entry = None, allowlistConfigured = False, gc_fallback = None\<rparr>"
  by (auto simp: resolveGroupConfig_def)

text \<open>
  C1, as stated: a group map that is not configured is distinct from one that is
  configured but empty. The code does not tell them apart: for an empty map
  \<open>resolveGroupConfig\<close> reports that no allow-list is configured, and the pipeline drops
  the message with the same reason and the same log line as for a missing map
  (lines 350-354: \<open>groups ?? {}\<close>, then \<open>keys.length === 0\<close>).
\<close>

theorem empty_group_map_counterexample:
  "allowlistConfigured (resolveGroupConfig ''oc_1'' None (Some [])) = False
   \<and> resolveGroupConfig ''oc_1'' None (Some []) = resolveGroupConfig ''oc_1'' None None
   \<and> processMessageWithPipeline (example_core True) example_runtime example_platform True
        (example_account (unset_config\<lparr>cfg_groups := Some []\<rparr>)) example_global
        (example_event ''group'' ''oc_1'' ''ou_1'' ''hello'' None)
      = (Dropped NoGroupAllowlist,
         [Log ''[feishu] drop group message (groupPolicy=allowlist, no allowlist, chat=oc_1)''])
   \<and> processMessageWithPipeline (example_core True) example_runtime example_platform True
        (example_account (unset_config\<lparr>cfg_groups := None\<rparr>)) example_global
        (example_event ''group'' ''oc_1'' ''ou_1'' ''hello'' None)
      = (Dropped NoGroupAllowlist,
         [Log ''[feishu] drop group message (groupPolicy=allowlist, no allowlist, chat=oc_1)''])"
  by code_simp

text \<open>
  C1, amended: a group-conversation event processed under \<open>groupPolicy=allowlist\<close> is
  rejected whenever the account has no group entries, whether the group map is missing
  or configured but empty; no wildcard entry can exist then. The two cases are not
  told apart: \<open>resolveGroupConfig\<close> returns the same result for both.
\<close>

theorem allowlist_without_group_entries_rejects:
  assumes intake: "pipeline_intake core runtime platform account event = Inr l"
    and grp: "l_isGroup l"
    and pol: "effective_groupPolicy account cfg = GroupAllowlist"
    and nogroups: "cfg_groups (config account) = None \<or> cfg_groups (config account) = Some []"
  shows "processMessageWithPipeline core runtime platform hasStatusSink account cfg event
           = (Dropped NoGroupAllowlist,
              logVerbose core runtime
                (''drop group message (groupPolicy=allowlist, no allowlist, chat='' @ l_chatId l @ '')''))
         \<and> resolveGroupConfig groupId groupName (Some []) = resolveGroupConfig groupId groupName None
         \<and> gc_fallback (resolveGroupConfig (l_chatId l) None (cfg_groups (config account))) = None"
proof -
  have r: "resolveGroupConfig (l_chatId l) None (cfg_groups (config account))
             = \<lparr>gc_entry = None, allowlistConfigured = False, gc_fallback = None\<rparr>"
    using nogroups by (rule resolveGroupConfig_no_entries)
  have g: "pipeline_groupGate core runtime account GroupAllowlist
             \<lparr>gc_entry = None, allowlistConfigured = False, gc_fallback = None\<rparr>
             (l_chatId l) (l_senderId l)
           = Some (NoGroupAllowlist,
                   logVerbose core runtime
                     (''drop group message (groupPolicy=allowlist, no allowlist, chat='' @ l_chatId l @ '')''))"
    by (simp add: pipeline_groupGate_def Let_def)
  have "processMessageWithPipeline core runtime platform hasStatusSink account cfg event
           = (Dropped NoGroupAllowlist,
              logVerbose core runtime
                (''drop group message (groupPolicy=allowlist, no allowlist, chat='' @ l_chatId l @ '')''))"
    by (simp add: processMessageWithPipeline_def intake grp pol r g Let_def)
  moreover have "resolveGroupConfig groupId groupName (Some [])
                   = resolveGroupConfig groupId groupName None"
    by (simp add: resolveGroupConfig_no_entries)
  ultimately show ?thesis by (simp add: r)
qed

theorem allowlist_without_group_entries_rejects_witness:
  "pipeline_intake (example_core True) example_runtime example_platform
      (example_account unset_config) (example_event ''group'' ''oc_1'' ''ou_1'' ''hello'' None)
     = Inr \<lparr>l_message = \<lparr>message_id = Some ''om_1'', chat_id = Some ''oc_1'',
                          chat_type = Some ''group'', msg_content = ContentString ''hello'',
                          mentions = None, root_id = None, parent_id = None\<rparr>,
            l_chatId = ''oc_1'', l_isGroup = True, l_senderId = ''ou_1'',
            l_rawContent = ''hello'', l_rawBody = ''hello''\<rparr>
   \<and> effective_groupPolicy (example_account unset_config) example_global = GroupAllowlist
   \<and> cfg_groups (config (example_account unset_config)) = None
   \<and> processMessageWithPipeline (example_core True) example_runtime example_platform False
        (example_account unset_config) example_global
        (example_event ''group'' ''oc_1'' ''ou_1'' ''hello'' None)
      = (Dropped NoGroupAllowlist,
         [Log ''[feishu] drop group message (groupPolicy=allowlist, no allowlist, chat=oc_1)''])"
proof -
  let ?l = "\<lparr>l_message = \<lparr>message_id = Some ''om_1'', chat_id = Some ''oc_1'',
                          chat_type = Some ''group'', msg_content = ContentString ''hello'',
                          mentions = None, root_id = None, parent_id = None\<rparr>,
            l_chatId = ''oc_1'', l_isGroup = True, l_senderId = ''ou_1'',
            l_rawContent = ''hello'', l_rawBody = ''hello''\<rparr>"
  have a: "pipeline_intake (example_core True) example_runtime example_platform
      (example_account unset_config) (example_event ''group'' ''oc_1'' ''ou_1'' ''hello'' None)
     = Inr ?l"
    by code_simp
  have b: "l_isGroup ?l" by simp
  have c: "effective_groupPolicy (example_account unset_config) example_global = GroupAllowlist"
    by code_simp
  have d: "cfg_groups (config (example_account unset_config)) = None"
    by (simp add: example_account_def unset_config_def)
  have d': "cfg_groups (config (example_account unset_config)) = None
            \<or> cfg_groups (config (example_account unset_config)) = Some []"
    using d by simp
  have e: "logVerbose (example_core True) example_runtime
             (''drop group message (groupPolicy=allowlist, no allowlist, chat='' @ l_chatId ?l @ '')'')
           = [Log ''[feishu] drop group message (groupPolicy=allowlist, no allowlist, chat=oc_1)'']"
    by (simp add: logVerbose_def example_core_def example_runtime_def)
  show ?thesis
    using allowlist_without_group_entries_rejects [OF a b c d', of False] a c d e
    by simp
qed

section \<open>DM gate\<close>
















section \<open>Outbound webhook forwarder\<close>




end
